theory Spec2Isabelle
  imports Main "HOL-Library.Sublist"
begin

section \<open>Python strings\<close>

text \<open>
  A Python \<open>str\<close> is a sequence of Unicode code points. The texts of \<open>bot.py\<close> are
  Cyrillic, so a string is modelled as the list of its code points; \<open>ascii\<close> embeds
  the ASCII pieces of a literal, the other pieces are written as code points.
\<close>

type_synonym pystr = "nat list"

definition ascii :: "string \<Rightarrow> pystr" where
  "ascii s = map of_char s"

text \<open>\<open>sub in s\<close> of Python: \<open>sub\<close> occurs in \<open>s\<close> as a contiguous run.\<close>

definition contains :: "pystr \<Rightarrow> pystr \<Rightarrow> bool" where
  "contains s sub = sublist sub s"

text \<open>
  \<open>str.isspace\<close> of one code point, as CPython decides it for \<open>str.strip()\<close>:
  the ASCII white space (TAB..CR, FS..US, SPACE) and the Unicode code points of
  bidirectional class WS, B or S, or of category Zs.
\<close>

definition isspace :: "nat \<Rightarrow> bool" where
  "isspace c \<longleftrightarrow>
     (0x09 \<le> c \<and> c \<le> 0x0D) \<or> (0x1C \<le> c \<and> c \<le> 0x20) \<or> c = 0x85 \<or> c = 0xA0 \<or>
     c = 0x1680 \<or> (0x2000 \<le> c \<and> c \<le> 0x200A) \<or> c = 0x2028 \<or> c = 0x2029 \<or>
     c = 0x202F \<or> c = 0x205F \<or> c = 0x3000"

text \<open>\<open>s.strip()\<close>: the white space at both ends is removed.\<close>

definition str_strip :: "pystr \<Rightarrow> pystr" where
  "str_strip s = rev (dropWhile isspace (rev (dropWhile isspace s)))"

text \<open>
  \<open>s.lower()\<close>. On Basic Latin and on the Cyrillic code points U+0400..U+045F the
  lower-case mapping of Unicode is one code point to one code point and does not look at
  the context: A..Z move by 0x20, U+0400..U+040F move by 0x50, U+0410..U+042F move by
  0x20, and every other code point of the two ranges stays. For a string with a code
  point outside the two ranges the result is that of the Unicode tables of the Python
  runtime, which are no part of the repository: it is the parameter \<open>rest\<close>.
\<close>

definition lower_cp :: "nat \<Rightarrow> nat" where
  "lower_cp c =
     (if 0x41 \<le> c \<and> c \<le> 0x5A then c + 0x20
      else if 0x400 \<le> c \<and> c \<le> 0x40F then c + 0x50
      else if 0x410 \<le> c \<and> c \<le> 0x42F then c + 0x20
      else c)"

definition latin_or_cyrillic :: "nat \<Rightarrow> bool" where
  "latin_or_cyrillic c \<longleftrightarrow> c < 0x80 \<or> (0x400 \<le> c \<and> c \<le> 0x45F)"

definition str_lower :: "(pystr \<Rightarrow> pystr) \<Rightarrow> pystr \<Rightarrow> pystr" where
  "str_lower rest s = (if list_all latin_or_cyrillic s then map lower_cp s else rest s)"

text \<open>\<open>sep.join(xs)\<close>.\<close>

fun str_join :: "pystr \<Rightarrow> pystr list \<Rightarrow> pystr" where
  "str_join sep [] = []"
| "str_join sep [x] = x"
| "str_join sep (x # y # ys) = x @ sep @ str_join sep (y # ys)"

text \<open>\<open>str(n)\<close> of an integer, as an f-string renders \<open>{n}\<close>.\<close>

fun digits :: "nat \<Rightarrow> pystr" where
  "digits n = (if n < 10 then [0x30 + n] else digits (n div 10) @ [0x30 + n mod 10])"

declare digits.simps [simp del]

definition str_of_int :: "int \<Rightarrow> pystr" where
  "str_of_int i = (if i < 0 then 0x2D # digits (nat (- i)) else digits (nat i))"

section \<open>The day parser\<close>

text \<open>The tuple \<open>short\<close> of \<open>parse_day_arg\<close>: pn, vt, sr, cht, pt, sb, vs.\<close>

definition short :: "pystr list" where
  "short = [[0x43F, 0x43D], [0x432, 0x442], [0x441, 0x440], [0x447, 0x442],
            [0x43F, 0x442], [0x441, 0x431], [0x432, 0x441]]"

text \<open>
  The loop \<open>for i, name in enumerate(short): if name == arg: return i\<close>, with the
  \<open>return None\<close> behind it; \<open>i\<close> is the index of the head of the remaining names.
\<close>

fun enumerate_find :: "int \<Rightarrow> pystr list \<Rightarrow> pystr \<Rightarrow> int option" where
  "enumerate_find i [] arg = None"
| "enumerate_find i (name # names) arg =
     (if name = arg then Some i else enumerate_find (i + 1) names arg)"

text \<open>\<open>arg or ""\<close> is \<open>""\<close> for the empty string and \<open>arg\<close> otherwise.\<close>

definition parse_day_arg :: "(pystr \<Rightarrow> pystr) \<Rightarrow> pystr \<Rightarrow> int option" where
  "parse_day_arg rest arg =
     (let arg = str_lower rest (str_strip (if arg = [] then [] else arg))
      in enumerate_find 0 short arg)"

section \<open>The schedule store and the formatter\<close>

datatype py_error = IndexError | AttributeError

text \<open>
  \<open>xs[i]\<close> on a sequence: an index below zero counts from the end, an index out of
  range raises \<open>IndexError\<close>.
\<close>

definition py_index :: "'a list \<Rightarrow> int \<Rightarrow> py_error + 'a" where
  "py_index xs i =
     (if 0 \<le> i \<and> i < int (length xs) then Inr (xs ! nat i)
      else if i < 0 \<and> - int (length xs) \<le> i then Inr (xs ! nat (int (length xs) + i))
      else Inl IndexError)"

text \<open>
  The module \<open>schedule_data\<close>, from which \<open>bot.py\<close> imports \<open>get_schedule\<close>,
  \<open>DAY_NAMES\<close> and \<open>DAY_NAMES_SHORT\<close>, is not among the sources: the three names are
  the fields of a parameter.

  Modelled from the spec: \<open>get_schedule\<close> is absent; by section 4.1 it is pure, has no
  failure modes and returns the (possibly empty) ordered sequence of (time, subject)
  pairs of a (week, day) slot, so it is a total function here.
\<close>

type_synonym lesson = "pystr \<times> pystr"

record schedule_data =
  get_schedule :: "int \<Rightarrow> int \<Rightarrow> lesson list"
  DAY_NAMES :: "pystr list"
  DAY_NAMES_SHORT :: "pystr list"

definition week_label :: "int \<Rightarrow> pystr" where
  "week_label week_num = (if week_num = 1 then ascii ''I'' else ascii ''II'')"

text \<open>The f-string of the header: calendar sign, day name, short name, week label, "nedelya".\<close>

definition header :: "pystr \<Rightarrow> pystr \<Rightarrow> pystr \<Rightarrow> pystr" where
  "header day_name short_name label =
     [0x1F4C5] @ ascii '' '' @ day_name @ ascii '' ('' @ short_name @ ascii ''), '' @ label @
     ascii '' '' @ [0x43D, 0x435, 0x434, 0x435, 0x43B, 0x44F, 0xA, 0xA]"

text \<open>The f-string of one lesson: clock sign, time, a line break, three blanks, subject.\<close>

definition lesson_line :: "lesson \<Rightarrow> pystr" where
  "lesson_line l = (case l of (time, subject) \<Rightarrow>
     [0x1F550] @ ascii '' '' @ time @ [0xA] @ ascii ''   '' @ subject)"

text \<open>"Zanyatij net."\<close>

definition no_lessons :: pystr where
  "no_lessons = [0x417, 0x430, 0x43D, 0x44F, 0x442, 0x438, 0x439] @ ascii '' '' @
                [0x43D, 0x435, 0x442] @ ascii ''.''"

definition format_day_schedule :: "schedule_data \<Rightarrow> int \<Rightarrow> int \<Rightarrow> py_error + pystr" where
  "format_day_schedule sd week_num day =
     (let lessons = get_schedule sd week_num day in
      case py_index (DAY_NAMES sd) day of
        Inl e \<Rightarrow> Inl e
      | Inr day_name \<Rightarrow>
          (let label = week_label week_num in
           case py_index (DAY_NAMES_SHORT sd) day of
             Inl e \<Rightarrow> Inl e
           | Inr short_name \<Rightarrow>
               (let hdr = header day_name short_name label in
                if lessons = [] then Inr (hdr @ no_lessons)
                else Inr (hdr @ str_join [0xA, 0xA] (map lesson_line lessons)))))"

section \<open>Session state\<close>

text \<open>
  \<open>context.user_data\<close> is the dictionary the framework keeps for the user of the
  update; the only key this program uses is \<open>"week"\<close>, with an integer value.
\<close>

type_synonym user_data = "pystr \<rightharpoonup> int"

definition DEFAULT_WEEK :: int where
  "DEFAULT_WEEK = 1"

definition get_user_week :: "user_data \<Rightarrow> int" where
  "get_user_week ud = (case ud (ascii ''week'') of None \<Rightarrow> DEFAULT_WEEK | Some w \<Rightarrow> w)"

section \<open>The handlers\<close>

text \<open>
  What a handler sends: \<open>reply_text\<close> with its text, parse mode and inline keyboard
  (rows of buttons, a button being its label and its callback data),
  \<open>query.answer()\<close>, and \<open>query.edit_message_text\<close> with its text and parse mode.
\<close>

type_synonym keyboard = "(pystr \<times> pystr) list list"

datatype action =
    ReplyText pystr "pystr option" "keyboard option"
  | Answer
  | EditMessageText pystr "pystr option"

text \<open>
  \<open>update.message\<close> is the message object when the update is a new message, and
  \<open>None\<close> otherwise: for an edited message the object is \<open>update.edited_message\<close>.
  The command handlers reply with \<open>update.message.reply_text(...)\<close>, which sends the
  reply when there is a message and raises \<open>AttributeError\<close> on \<open>None\<close>.
\<close>

datatype message = Message

definition reply_text ::
  "message option \<Rightarrow> pystr \<Rightarrow> pystr option \<Rightarrow> keyboard option \<Rightarrow> py_error + action list" where
  "reply_text msg text parse_mode reply_markup =
     (case msg of
        None \<Rightarrow> Inl AttributeError
      | Some m \<Rightarrow> Inr [ReplyText text parse_mode reply_markup])"

text \<open>"nedelya", \<open>Markdown\<close>.\<close>

definition nedelya :: pystr where
  "nedelya = [0x43D, 0x435, 0x434, 0x435, 0x43B, 0x44F]"

definition Markdown :: "pystr option" where
  "Markdown = Some (ascii ''Markdown'')"

definition start_text :: "pystr \<Rightarrow> int \<Rightarrow> pystr" where
  "start_text first_name week =
     [0x41F, 0x440, 0x438, 0x432, 0x435, 0x442] @ ascii '', '' @ first_name @ ascii ''!'' @
     [0xA, 0xA, 0x42F] @ ascii '' '' @ [0x431, 0x43E, 0x442] @ ascii '' '' @ [0x441] @ ascii '' '' @
     [0x440, 0x430, 0x441, 0x43F, 0x438, 0x441, 0x430, 0x43D, 0x438, 0x435, 0x43C] @ ascii ''. '' @
     [0x421, 0x435, 0x439, 0x447, 0x430, 0x441] @ ascii '' '' @
     [0x432, 0x44B, 0x431, 0x440, 0x430, 0x43D, 0x430] @ ascii '' **'' @ str_of_int week @
     ascii '' '' @ nedelya @ ascii ''**.'' @
     [0xA, 0xA, 0x41A, 0x43E, 0x43C, 0x430, 0x43D, 0x434, 0x44B] @ ascii '':'' @ [0xA] @
     ascii ''/rasp '' @ [0x2014] @ ascii '' '' @
     [0x440, 0x430, 0x441, 0x43F, 0x438, 0x441, 0x430, 0x43D, 0x438, 0x435] @ ascii '' '' @
     [0x43D, 0x430] @ ascii '' '' @ [0x441, 0x435, 0x433, 0x43E, 0x434, 0x43D, 0x44F, 0xA] @
     ascii ''/rasp '' @ [0x43F, 0x43D] @ ascii '', /rasp '' @ [0x432, 0x442] @ ascii '', '' @
     [0x2026] @ ascii '' '' @ [0x2014] @ ascii '' '' @
     [0x440, 0x430, 0x441, 0x43F, 0x438, 0x441, 0x430, 0x43D, 0x438, 0x435] @ ascii '' '' @
     [0x43D, 0x430] @ ascii '' '' @ [0x432, 0x44B, 0x431, 0x440, 0x430, 0x43D, 0x43D, 0x44B, 0x439] @
     ascii '' '' @ [0x434, 0x435, 0x43D, 0x44C, 0xA] @
     ascii ''/week '' @ [0x2014] @ ascii '' '' @ [0x432, 0x44B, 0x431, 0x440, 0x430, 0x442, 0x44C] @
     ascii '' '' @ [0x43D, 0x435, 0x434, 0x435, 0x43B, 0x44E] @ ascii '' (I '' @
     [0x438, 0x43B, 0x438] @ ascii '' II)''"

definition start ::
  "message option \<Rightarrow> pystr \<Rightarrow> user_data \<Rightarrow> py_error + user_data \<times> action list" where
  "start msg first_name ud =
     (let week = get_user_week ud
      in case reply_text msg (start_text first_name week) Markdown None of
           Inl e \<Rightarrow> Inl e
         | Inr acts \<Rightarrow> Inr (ud, acts))"

definition week_keyboard :: keyboard where
  "week_keyboard =
     [[(ascii ''I '' @ nedelya, ascii ''week_1''), (ascii ''II '' @ nedelya, ascii ''week_2'')]]"

definition week_text :: "int \<Rightarrow> pystr" where
  "week_text current =
     [0x421, 0x435, 0x439, 0x447, 0x430, 0x441] @ ascii '' '' @
     [0x432, 0x44B, 0x431, 0x440, 0x430, 0x43D, 0x430] @ ascii '': **'' @ str_of_int current @
     ascii '' '' @ nedelya @ ascii ''**.'' @ [0xA, 0x412, 0x44B, 0x431, 0x435, 0x440, 0x438] @
     ascii '' '' @ [0x43D, 0x435, 0x434, 0x435, 0x43B, 0x44E] @ ascii '':''"

definition week_command ::
  "message option \<Rightarrow> user_data \<Rightarrow> py_error + user_data \<times> action list" where
  "week_command msg ud =
     (let reply_markup = week_keyboard; current = get_user_week ud
      in case reply_text msg (week_text current) Markdown (Some reply_markup) of
           Inl e \<Rightarrow> Inl e
         | Inr acts \<Rightarrow> Inr (ud, acts))"

text \<open>"Vybrana **I nedelya**." and "Vybrana **II nedelya**."\<close>

definition chosen_I :: pystr where
  "chosen_I = [0x412, 0x44B, 0x431, 0x440, 0x430, 0x43D, 0x430] @ ascii '' **I '' @ nedelya @
              ascii ''**.''"

definition chosen_II :: pystr where
  "chosen_II = [0x412, 0x44B, 0x431, 0x440, 0x430, 0x43D, 0x430] @ ascii '' **II '' @ nedelya @
               ascii ''**.''"

definition week_callback :: "pystr \<Rightarrow> user_data \<Rightarrow> user_data \<times> action list" where
  "week_callback data ud =
     (if data = ascii ''week_1''
      then (ud(ascii ''week'' \<mapsto> 1), [Answer, EditMessageText chosen_I Markdown])
      else (ud(ascii ''week'' \<mapsto> 2), [Answer, EditMessageText chosen_II Markdown]))"

text \<open>
  "Neizvestnyj den'. Napishi: /rasp pn, /rasp vt, /rasp sr, /rasp cht, /rasp pt,
  /rasp sb, /rasp vs"
\<close>

definition unknown_day :: pystr where
  "unknown_day =
     [0x41D, 0x435, 0x438, 0x437, 0x432, 0x435, 0x441, 0x442, 0x43D, 0x44B, 0x439] @ ascii '' '' @
     [0x434, 0x435, 0x43D, 0x44C] @ ascii ''. '' @ [0x41D, 0x430, 0x43F, 0x438, 0x448, 0x438] @
     ascii '': /rasp '' @ [0x43F, 0x43D] @ ascii '', /rasp '' @ [0x432, 0x442] @
     ascii '', /rasp '' @ [0x441, 0x440] @ ascii '', /rasp '' @ [0x447, 0x442] @
     ascii '', /rasp '' @ [0x43F, 0x442] @ ascii '', /rasp '' @ [0x441, 0x431] @
     ascii '', /rasp '' @ [0x432, 0x441]"

text \<open>
  \<open>datetime.now().weekday()\<close>: the clock is read as the ordinal of the local date
  (\<open>toordinal()\<close>, 1 for 0001-01-01, a Monday), and the weekday of a date is
  \<open>(toordinal() + 6) % 7\<close>, Monday being 0.
\<close>

definition weekday :: "int \<Rightarrow> int" where
  "weekday ordinal = (ordinal + 6) mod 7"

text \<open>
  \<open>rasp_command\<close>. Its last two lines, \<open>text = format_day_schedule(week, day)\<close> and
  \<open>update.message.reply_text(text)\<close>, are \<open>send\<close>: the formatter runs first, so its
  exception comes before that of the reply.
\<close>

definition rasp_command ::
  "(pystr \<Rightarrow> pystr) \<Rightarrow> schedule_data \<Rightarrow> int \<Rightarrow> message option \<Rightarrow> pystr list \<Rightarrow> user_data \<Rightarrow>
   py_error + user_data \<times> action list" where
  "rasp_command rest sd now msg args ud =
     (let week = get_user_week ud;
          send = (\<lambda>day. case format_day_schedule sd week day of
                     Inl e \<Rightarrow> Inl e
                   | Inr text \<Rightarrow>
                       (case reply_text msg text None None of
                          Inl e \<Rightarrow> Inl e
                        | Inr acts \<Rightarrow> Inr (ud, acts)))
      in case args of
           arg0 # _ \<Rightarrow>
             (case parse_day_arg rest arg0 of
                None \<Rightarrow>
                  (case reply_text msg unknown_day None None of
                     Inl e \<Rightarrow> Inl e
                   | Inr acts \<Rightarrow> Inr (ud, acts))
              | Some day \<Rightarrow> send day)
         | [] \<Rightarrow> send (weekday now))"

definition help_text :: pystr where
  "help_text =
     ascii ''/start '' @ [0x2014] @ ascii '' '' @
     [0x43F, 0x440, 0x438, 0x432, 0x435, 0x442, 0x441, 0x442, 0x432, 0x438, 0x435, 0xA] @
     ascii ''/rasp '' @ [0x2014] @ ascii '' '' @
     [0x440, 0x430, 0x441, 0x43F, 0x438, 0x441, 0x430, 0x43D, 0x438, 0x435] @ ascii '' '' @
     [0x43D, 0x430] @ ascii '' **'' @ [0x441, 0x435, 0x433, 0x43E, 0x434, 0x43D, 0x44F] @
     ascii ''** ('' @ [0x434, 0x435, 0x43D, 0x44C] @ ascii '' '' @ [0x43F, 0x43E] @ ascii '' '' @
     [0x440, 0x435, 0x430, 0x43B, 0x44C, 0x43D, 0x43E, 0x43C, 0x443] @ ascii '' '' @
     [0x432, 0x440, 0x435, 0x43C, 0x435, 0x43D, 0x438] @ ascii '')'' @ [0xA] @
     ascii ''/rasp '' @ [0x43F, 0x43D] @ ascii '', /rasp '' @ [0x432, 0x442] @ ascii '', '' @
     [0x2026] @ ascii '' '' @ [0x2014] @ ascii '' '' @
     [0x440, 0x430, 0x441, 0x43F, 0x438, 0x441, 0x430, 0x43D, 0x438, 0x435] @ ascii '' '' @
     [0x43D, 0x430] @ ascii '' '' @ [0x432, 0x44B, 0x431, 0x440, 0x430, 0x43D, 0x43D, 0x44B, 0x439] @
     ascii '' '' @ [0x434, 0x435, 0x43D, 0x44C, 0xA] @
     ascii ''/week '' @ [0x2014] @ ascii '' '' @ [0x432, 0x44B, 0x431, 0x440, 0x430, 0x442, 0x44C] @
     ascii '' '' @ [0x43D, 0x435, 0x434, 0x435, 0x43B, 0x44E] @ ascii '' (I '' @
     [0x438, 0x43B, 0x438] @ ascii '' II)'' @ [0xA] @
     ascii ''/help '' @ [0x2014] @ ascii '' '' @ [0x44D, 0x442, 0x430] @ ascii '' '' @
     [0x441, 0x43F, 0x440, 0x430, 0x432, 0x43A, 0x430]"

definition help_command ::
  "message option \<Rightarrow> user_data \<Rightarrow> py_error + user_data \<times> action list" where
  "help_command msg ud =
     (case reply_text msg help_text Markdown None of
        Inl e \<Rightarrow> Inl e
      | Inr acts \<Rightarrow> Inr (ud, acts))"

section \<open>Start-up and dispatch\<close>

text \<open>
  \<open>BOT_TOKEN = os.environ.get("TELEGRAM_BOT_TOKEN", "")\<close>, the environment being a
  dictionary from names to values.
\<close>

definition BOT_TOKEN :: "(pystr \<rightharpoonup> pystr) \<Rightarrow> pystr" where
  "BOT_TOKEN environ =
     (case environ (ascii ''TELEGRAM_BOT_TOKEN'') of None \<Rightarrow> [] | Some v \<Rightarrow> v)"

text \<open>
  The handlers \<open>main\<close> registers, in its order. A \<open>CommandHandler\<close> carries its
  command name. The \<open>CallbackQueryHandler\<close> carries the pattern \<open>^week_\<close>, which the
  framework applies with \<open>re.match\<close>: it holds the prefix that the callback data must
  start with.
\<close>

datatype callback = Start | Week_command | Rasp_command | Help_command | Week_callback

datatype handler = CommandHandler pystr callback | CallbackQueryHandler callback pystr

definition handlers :: "handler list" where
  "handlers =
     [CommandHandler (ascii ''start'') Start,
      CommandHandler (ascii ''week'') Week_command,
      CommandHandler (ascii ''rasp'') Rasp_command,
      CommandHandler (ascii ''help'') Help_command,
      CallbackQueryHandler Week_callback (ascii ''week_'')]"

text \<open>
  What \<open>main\<close> does, in order: \<open>print\<close>, building the application with the token,
  \<open>add_handler\<close>, \<open>run_polling\<close> (the event loop).
\<close>

datatype startup = Print pystr | Build pystr | AddHandler handler | RunPolling

text \<open>
  "Oshibka: nuzhen token bota.", "Sozdaj bota u @BotFather v Telegram i zadaj
  TELEGRAM_BOT_TOKEN v .env", "Bot zapushchen. Ostanovka: Ctrl+C".
\<close>

definition token_needed :: pystr where
  "token_needed = [0x41E, 0x448, 0x438, 0x431, 0x43A, 0x430] @ ascii '': '' @
     [0x43D, 0x443, 0x436, 0x435, 0x43D] @ ascii '' '' @ [0x442, 0x43E, 0x43A, 0x435, 0x43D] @
     ascii '' '' @ [0x431, 0x43E, 0x442, 0x430] @ ascii ''.''"

definition token_howto :: pystr where
  "token_howto = [0x421, 0x43E, 0x437, 0x434, 0x430, 0x439] @ ascii '' '' @
     [0x431, 0x43E, 0x442, 0x430] @ ascii '' '' @ [0x443] @ ascii '' @BotFather '' @ [0x432] @
     ascii '' Telegram '' @ [0x438] @ ascii '' '' @ [0x437, 0x430, 0x434, 0x430, 0x439] @
     ascii '' TELEGRAM_BOT_TOKEN '' @ [0x432] @ ascii '' .env''"

definition bot_started :: pystr where
  "bot_started = [0x411, 0x43E, 0x442] @ ascii '' '' @
     [0x437, 0x430, 0x43F, 0x443, 0x449, 0x435, 0x43D] @ ascii ''. '' @
     [0x41E, 0x441, 0x442, 0x430, 0x43D, 0x43E, 0x432, 0x43A, 0x430] @ ascii '': Ctrl+C''"

definition main :: "(pystr \<rightharpoonup> pystr) \<Rightarrow> startup list" where
  "main environ =
     (if BOT_TOKEN environ = [] then [Print token_needed, Print token_howto]
      else [Build (BOT_TOKEN environ)] @ map AddHandler handlers @
           [Print bot_started, RunPolling])"

text \<open>
  An update, as the framework hands it to the handlers: a command message with the
  command name and \<open>context.args\<close>, new (\<open>Command\<close>) or edited
  (\<open>EditedCommand\<close>), or a button press with \<open>query.data\<close>; each with the user it
  comes from (\<open>update.effective_user\<close>). \<open>main\<close> registers its command handlers
  without a filter and polls for all update types, so a command handler takes the new
  and the edited messages alike.
\<close>

record user =
  user_id :: nat
  first_name :: pystr

datatype update =
    Command user pystr "pystr list"
  | EditedCommand user pystr "pystr list"
  | CallbackQuery user pystr

fun effective_user :: "update \<Rightarrow> user" where
  "effective_user (Command u c args) = u"
| "effective_user (EditedCommand u c args) = u"
| "effective_user (CallbackQuery u d) = u"

text \<open>\<open>update.message\<close> and \<open>context.args\<close> of an update.\<close>

fun update_message :: "update \<Rightarrow> message option" where
  "update_message (Command u c args) = Some Message"
| "update_message (EditedCommand u c args) = None"
| "update_message (CallbackQuery u d) = None"

fun context_args :: "update \<Rightarrow> pystr list" where
  "context_args (Command u c args) = args"
| "context_args (EditedCommand u c args) = args"
| "context_args (CallbackQuery u d) = []"

text \<open>Whether a registered handler takes an update.\<close>

fun check_update :: "handler \<Rightarrow> update \<Rightarrow> bool" where
  "check_update (CommandHandler name cb) (Command u c args) = (c = name)"
| "check_update (CommandHandler name cb) (EditedCommand u c args) = (c = name)"
| "check_update (CallbackQueryHandler cb pre) (CallbackQuery u d) = prefix pre d"
| "check_update h upd = False"

fun callback_of :: "handler \<Rightarrow> callback" where
  "callback_of (CommandHandler name cb) = cb"
| "callback_of (CallbackQueryHandler cb pre) = cb"

text \<open>
  The call of a callback on an update, with the \<open>user_data\<close> of the update's user.
  \<open>week_callback\<close> starts with \<open>query = update.callback_query\<close> and
  \<open>query.answer()\<close>, which raises on an update that is no button press.
\<close>

fun run_callback ::
  "(pystr \<Rightarrow> pystr) \<Rightarrow> schedule_data \<Rightarrow> int \<Rightarrow> callback \<Rightarrow> update \<Rightarrow> user_data \<Rightarrow>
   py_error + user_data \<times> action list" where
  "run_callback rest sd now Start upd ud =
     start (update_message upd) (first_name (effective_user upd)) ud"
| "run_callback rest sd now Week_command upd ud = week_command (update_message upd) ud"
| "run_callback rest sd now Rasp_command upd ud =
     rasp_command rest sd now (update_message upd) (context_args upd) ud"
| "run_callback rest sd now Help_command upd ud = help_command (update_message upd) ud"
| "run_callback rest sd now Week_callback (CallbackQuery u d) ud = Inr (week_callback d ud)"
| "run_callback rest sd now Week_callback upd ud = Inl AttributeError"

text \<open>
  The sessions: one \<open>user_data\<close> dictionary for each user, empty until written.
  An update goes to the first registered handler that takes it, and to none if there is
  no such handler; the handler works on the dictionary of the update's user.
\<close>

type_synonym sessions = "nat \<Rightarrow> user_data"

definition no_sessions :: sessions where
  "no_sessions = (\<lambda>uid. Map.empty)"

definition process_update ::
  "(pystr \<Rightarrow> pystr) \<Rightarrow> schedule_data \<Rightarrow> int \<Rightarrow> sessions \<Rightarrow> update \<Rightarrow>
   py_error + sessions \<times> action list" where
  "process_update rest sd now s upd =
     (case find (\<lambda>h. check_update h upd) handlers of
        None \<Rightarrow> Inr (s, [])
      | Some h \<Rightarrow>
          (let uid = user_id (effective_user upd) in
           case run_callback rest sd now (callback_of h) upd (s uid) of
             Inl e \<Rightarrow> Inl e
           | Inr (ud, acts) \<Rightarrow> Inr (s(uid := ud), acts)))"

text \<open>
  A run of the bot over a sequence of updates, each with the clock reading at its
  arrival. An exception of a handler is caught by the framework: the update is
  dropped and the sessions stay as they were.
\<close>

definition step :: "(pystr \<Rightarrow> pystr) \<Rightarrow> schedule_data \<Rightarrow> sessions \<Rightarrow> int \<times> update \<Rightarrow> sessions" where
  "step rest sd s ev =
     (case process_update rest sd (fst ev) s (snd ev) of Inl e \<Rightarrow> s | Inr (s', acts) \<Rightarrow> s')"

definition run :: "(pystr \<Rightarrow> pystr) \<Rightarrow> schedule_data \<Rightarrow> sessions \<Rightarrow> (int \<times> update) list \<Rightarrow> sessions" where
  "run rest sd s evs = foldl (step rest sd) s evs"

section \<open>The formatter and the session invariant in the words of the specification\<close>

text \<open>
  Section 4.3 of the specification: a header (full day name, short code, week label
  "I"/"II") followed by either the "no lessons" text or one block per schedule entry
  showing time and subject, in the stored order, consecutive blocks joined by a blank
  line. These definitions follow those words; they are compared with
  \<open>format_day_schedule\<close> below.
\<close>

definition header_line :: "pystr \<Rightarrow> pystr \<Rightarrow> int \<Rightarrow> pystr" where
  "header_line full_name short_code week =
     [0x1F4C5, 0x20] @ full_name @ [0x20, 0x28] @ short_code @ [0x29, 0x2C, 0x20] @
     (if week = 1 then [0x49] else [0x49, 0x49]) @ 0x20 # nedelya"

definition blank_line :: pystr where
  "blank_line = [0xA, 0xA]"

definition block :: "lesson \<Rightarrow> pystr" where
  "block entry = [0x1F550, 0x20] @ fst entry @ [0xA, 0x20, 0x20, 0x20] @ snd entry"

fun blocks :: "lesson list \<Rightarrow> pystr" where
  "blocks [] = []"
| "blocks (entry # entries) = block entry @ concat (map (\<lambda>e. blank_line @ block e) entries)"

definition formatDay :: "schedule_data \<Rightarrow> int \<Rightarrow> int \<Rightarrow> pystr" where
  "formatDay sd week day =
     header_line (DAY_NAMES sd ! nat day) (DAY_NAMES_SHORT sd ! nat day) week @ blank_line @
     (if get_schedule sd week day = [] then no_lessons else blocks (get_schedule sd week day))"

text \<open>
  Section 3: the week selector of a user is one of the two values. On the dictionary
  of a user: the key \<open>"week"\<close> is absent (the default applies) or holds 1 or 2.
\<close>

definition week_valid :: "user_data \<Rightarrow> bool" where
  "week_valid ud = (case ud (ascii ''week'') of None \<Rightarrow> True | Some w \<Rightarrow> w = 1 \<or> w = 2)"

section \<open>A sample schedule\<close>

text \<open>
  A schedule store to run the formatter on: two lessons ("Algebra" at 09:00, "Fizika"
  at 10:45) on the Monday of week 1 and none elsewhere, with the Russian day names and
  their capitalised two-letter codes.
\<close>

definition sample_lessons :: "int \<Rightarrow> int \<Rightarrow> lesson list" where
  "sample_lessons week day =
     (if week = 1 \<and> day = 0
      then [(ascii ''09:00'', [0x410, 0x43B, 0x433, 0x435, 0x431, 0x440, 0x430]),
            (ascii ''10:45'', [0x424, 0x438, 0x437, 0x438, 0x43A, 0x430])]
      else [])"

definition sample_data :: schedule_data where
  "sample_data = \<lparr>
     get_schedule = sample_lessons,
     DAY_NAMES =
       [[0x41F, 0x43E, 0x43D, 0x435, 0x434, 0x435, 0x43B, 0x44C, 0x43D, 0x438, 0x43A],
        [0x412, 0x442, 0x43E, 0x440, 0x43D, 0x438, 0x43A],
        [0x421, 0x440, 0x435, 0x434, 0x430],
        [0x427, 0x435, 0x442, 0x432, 0x435, 0x440, 0x433],
        [0x41F, 0x44F, 0x442, 0x43D, 0x438, 0x446, 0x430],
        [0x421, 0x443, 0x431, 0x431, 0x43E, 0x442, 0x430],
        [0x412, 0x43E, 0x441, 0x43A, 0x440, 0x435, 0x441, 0x435, 0x43D, 0x44C, 0x435]],
     DAY_NAMES_SHORT =
       [[0x41F, 0x43D], [0x412, 0x442], [0x421, 0x440], [0x427, 0x442], [0x41F, 0x442],
        [0x421, 0x431], [0x412, 0x441]] \<rparr>"

section \<open>The day parser is exact\<close>

lemma enumerate_find_None: "enumerate_find k names a = None \<longleftrightarrow> a \<notin> set names"
  by (induction names arbitrary: k) auto

lemma enumerate_find_Some:
  "distinct names \<Longrightarrow> enumerate_find k names a = Some i \<longleftrightarrow>
     k \<le> i \<and> i < k + int (length names) \<and> names ! nat (i - k) = a"
proof (induction names arbitrary: k)
  case Nil
  then show ?case by simp
next
  case (Cons n ns)
  show ?case
  proof (cases "n = a")
    case True
    have "(n # ns) ! nat (i - k) = a \<and> k \<le> i \<and> i < k + int (length (n # ns)) \<longleftrightarrow> i = k"
    proof
      assume h: "(n # ns) ! nat (i - k) = a \<and> k \<le> i \<and> i < k + int (length (n # ns))"
      show "i = k"
      proof (rule ccontr)
        assume "i \<noteq> k"
        with h have pos: "0 < nat (i - k)" and lt: "nat (i - k) - 1 < length ns" by auto
        from pos h have "ns ! (nat (i - k) - 1) = a" by (simp add: nth_Cons')
        with lt have "a \<in> set ns" by (metis nth_mem)
        with True Cons.prems show False by simp
      qed
    next
      assume "i = k"
      with True show "(n # ns) ! nat (i - k) = a \<and> k \<le> i \<and> i < k + int (length (n # ns))" by simp
    qed
    with True show ?thesis by auto
  next
    case False
    from Cons.prems have d: "distinct ns" by simp
    have ih: "enumerate_find (k + 1) ns a = Some i \<longleftrightarrow>
       k + 1 \<le> i \<and> i < k + 1 + int (length ns) \<and> ns ! nat (i - (k + 1)) = a"
      by (rule Cons.IH [OF d])
    have eq: "(n # ns) ! nat (i - k) = ns ! nat (i - (k + 1))" if "k + 1 \<le> i"
    proof -
      from that have "nat (i - k) = Suc (nat (i - (k + 1)))" by arith
      then show ?thesis by simp
    qed
    have "k \<le> i \<and> i < k + int (length (n # ns)) \<and> (n # ns) ! nat (i - k) = a \<longleftrightarrow>
       k + 1 \<le> i \<and> i < k + 1 + int (length ns) \<and> ns ! nat (i - (k + 1)) = a"
    proof (cases "i = k")
      case True
      with False show ?thesis by simp
    next
      case ne: False
      show ?thesis
      proof (cases "k + 1 \<le> i")
        case True
        with eq show ?thesis by auto
      next
        case False
        with ne show ?thesis by auto
      qed
    qed
    with False ih show ?thesis by simp
  qed
qed

lemma distinct_short: "distinct short"
  by (simp add: short_def)

lemma length_short: "length short = 7"
  by (simp add: short_def)

text \<open>
  C1. For every input string, \<open>parse_day_arg\<close> returns the day index \<open>i\<close> exactly when
  \<open>0 \<le> i < 7\<close> and the input, stripped of white space and lower-cased, equals the
  \<open>i\<close>-th token of \<open>short\<close>; it returns \<open>None\<close> exactly when the normalised input
  is none of the seven tokens, and in particular for the empty string. No other
  string, so no part of a token and no longer string, is accepted.
\<close>

theorem parse_day_arg_exact:
  "(parse_day_arg rest arg = Some i \<longleftrightarrow>
      0 \<le> i \<and> i < 7 \<and> str_lower rest (str_strip arg) = short ! nat i) \<and>
   (parse_day_arg rest arg = None \<longleftrightarrow> str_lower rest (str_strip arg) \<notin> set short) \<and>
   parse_day_arg rest [] = None"
proof -
  have norm: "parse_day_arg rest arg = enumerate_find 0 short (str_lower rest (str_strip arg))"
    by (simp add: parse_day_arg_def)
  have a: "parse_day_arg rest arg = Some i \<longleftrightarrow>
      0 \<le> i \<and> i < 7 \<and> str_lower rest (str_strip arg) = short ! nat i"
    using enumerate_find_Some [OF distinct_short, of 0 "str_lower rest (str_strip arg)" i]
    by (auto simp: norm length_short)
  have b: "parse_day_arg rest arg = None \<longleftrightarrow> str_lower rest (str_strip arg) \<notin> set short"
    by (simp add: norm enumerate_find_None)
  have e: "str_lower rest (str_strip []) = []"
    by (simp add: str_lower_def str_strip_def)
  have c: "parse_day_arg rest [] = None"
    by (simp add: parse_day_arg_def e enumerate_find_None) (simp add: short_def)
  from a b c show ?thesis by blast
qed

text \<open>
  The theorem at " PN\n" in capitals (Monday) and at "pnd", which only starts with a
  token.
\<close>

theorem parse_day_arg_exact_witness:
  "parse_day_arg (\<lambda>s. s) [0x20, 0x41F, 0x41D, 0xA] = Some 0 \<and>
   parse_day_arg (\<lambda>s. s) [0x43F, 0x43D, 0x434] = None"
proof -
  have n1: "str_lower (\<lambda>s. s) (str_strip [0x20, 0x41F, 0x41D, 0xA]) = [0x43F, 0x43D]"
    by (simp add: str_lower_def str_strip_def isspace_def latin_or_cyrillic_def lower_cp_def)
  have n2: "str_lower (\<lambda>s. s) (str_strip [0x43F, 0x43D, 0x434]) = [0x43F, 0x43D, 0x434]"
    by (simp add: str_lower_def str_strip_def isspace_def latin_or_cyrillic_def lower_cp_def)
  have s0: "short ! nat 0 = [0x43F, 0x43D]"
    by (simp add: short_def)
  have notin: "[0x43F, 0x43D, 0x434] \<notin> set short"
    by (simp add: short_def)
  from parse_day_arg_exact [of "\<lambda>s. s" "[0x20, 0x41F, 0x41D, 0xA]" 0] n1 s0
  have a: "parse_day_arg (\<lambda>s. s) [0x20, 0x41F, 0x41D, 0xA] = Some 0" by simp
  from parse_day_arg_exact [of "\<lambda>s. s" "[0x43F, 0x43D, 0x434]" 0] n2 notin
  have b: "parse_day_arg (\<lambda>s. s) [0x43F, 0x43D, 0x434] = None" by simp
  from a b show ?thesis by simp
qed

section \<open>The formatter\<close>

lemma py_index_in_range:
  "0 \<le> i \<Longrightarrow> i < int (length xs) \<Longrightarrow> py_index xs i = Inr (xs ! nat i)"
  by (simp add: py_index_def)

lemma format_day_schedule_Inr:
  assumes "0 \<le> day" "day < int (length (DAY_NAMES sd))" "day < int (length (DAY_NAMES_SHORT sd))"
  shows "format_day_schedule sd week day =
     Inr (header (DAY_NAMES sd ! nat day) (DAY_NAMES_SHORT sd ! nat day) (week_label week) @
          (if get_schedule sd week day = [] then no_lessons
           else str_join [0xA, 0xA] (map lesson_line (get_schedule sd week day))))"
  using assms by (simp add: format_day_schedule_def py_index_in_range Let_def)

lemma ascii_simps:
  "ascii '' '' = [0x20]" "ascii '' ('' = [0x20, 0x28]" "ascii ''), '' = [0x29, 0x2C, 0x20]"
  "ascii ''I'' = [0x49]" "ascii ''II'' = [0x49, 0x49]" "ascii ''   '' = [0x20, 0x20, 0x20]"
  by (simp_all add: ascii_def)

lemma header_eq: "header n sh (week_label w) = header_line n sh w @ blank_line"
  by (simp add: header_def header_line_def blank_line_def week_label_def nedelya_def ascii_simps)

lemma lesson_line_eq: "lesson_line e = block e"
  by (cases e) (simp add: lesson_line_def block_def ascii_simps)

lemma str_join_blocks: "str_join blank_line (map block es) = blocks es"
proof (cases es)
  case Nil
  then show ?thesis by simp
next
  case (Cons e rest)
  have "str_join blank_line (map block (e # rest)) =
        block e @ concat (map (\<lambda>x. blank_line @ block x) rest)" for e
    by (induction rest arbitrary: e) simp_all
  with Cons show ?thesis by simp
qed

text \<open>
  C5. For week 1 or 2 and a day from 0 to 6 (the two name tables holding the seven
  names), the output of \<open>format_day_schedule\<close> is the text that the specification
  describes: the header line (full day name, short code, week label) and a blank line,
  followed by the "no lessons" text when the store returns the empty sequence for the
  slot, and otherwise by one block per entry (its time and its subject) in the stored
  order, each further block separated from the one before by a blank line.
\<close>

theorem format_day_schedule_layout:
  assumes "week = 1 \<or> week = 2" "0 \<le> day" "day \<le> 6"
    and "7 \<le> length (DAY_NAMES sd)" "7 \<le> length (DAY_NAMES_SHORT sd)"
  shows "format_day_schedule sd week day = Inr (formatDay sd week day) \<and>
    (get_schedule sd week day = [] \<longrightarrow>
       formatDay sd week day =
         header_line (DAY_NAMES sd ! nat day) (DAY_NAMES_SHORT sd ! nat day) week @ blank_line @
         no_lessons) \<and>
    (get_schedule sd week day \<noteq> [] \<longrightarrow>
       formatDay sd week day =
         header_line (DAY_NAMES sd ! nat day) (DAY_NAMES_SHORT sd ! nat day) week @ blank_line @
         block (hd (get_schedule sd week day)) @
         concat (map (\<lambda>e. blank_line @ block e) (tl (get_schedule sd week day))))"
proof -
  from assms have r: "0 \<le> day" "day < int (length (DAY_NAMES sd))"
    "day < int (length (DAY_NAMES_SHORT sd))" by auto
  have lines: "map lesson_line ls = map block ls" for ls
    by (simp add: lesson_line_eq)
  have a: "format_day_schedule sd week day = Inr (formatDay sd week day)"
    unfolding format_day_schedule_Inr [OF r] formatDay_def header_eq lines
    using str_join_blocks [unfolded blank_line_def] by (simp add: blank_line_def)
  have b: "get_schedule sd week day \<noteq> [] \<Longrightarrow>
     blocks (get_schedule sd week day) = block (hd (get_schedule sd week day)) @
         concat (map (\<lambda>e. blank_line @ block e) (tl (get_schedule sd week day)))"
    by (cases "get_schedule sd week day") simp_all
  from a b show ?thesis by (simp add: formatDay_def)
qed


text \<open>
  The theorem on the sample schedule: the Monday of week 1 with its two lessons, and
  the Sunday of week 2 without lessons.
\<close>

theorem format_day_schedule_layout_witness:
  "format_day_schedule sample_data 1 0 = Inr (formatDay sample_data 1 0) \<and>
   formatDay sample_data 1 0 =
     header_line [0x41F, 0x43E, 0x43D, 0x435, 0x434, 0x435, 0x43B, 0x44C, 0x43D, 0x438, 0x43A]
       [0x41F, 0x43D] 1 @ blank_line @
     block (ascii ''09:00'', [0x410, 0x43B, 0x433, 0x435, 0x431, 0x440, 0x430]) @ blank_line @
     block (ascii ''10:45'', [0x424, 0x438, 0x437, 0x438, 0x43A, 0x430]) \<and>
   format_day_schedule sample_data 2 6 =
     Inr (header_line [0x412, 0x43E, 0x441, 0x43A, 0x440, 0x435, 0x441, 0x435, 0x43D, 0x44C, 0x435]
       [0x412, 0x441] 2 @ blank_line @ no_lessons)"
proof -
  have l: "7 \<le> length (DAY_NAMES sample_data)" "7 \<le> length (DAY_NAMES_SHORT sample_data)"
    by (simp_all add: sample_data_def)
  have g: "get_schedule sample_data 1 0 =
      [(ascii ''09:00'', [0x410, 0x43B, 0x433, 0x435, 0x431, 0x440, 0x430]),
       (ascii ''10:45'', [0x424, 0x438, 0x437, 0x438, 0x43A, 0x430])]"
    "get_schedule sample_data 2 6 = []"
    by (simp_all add: sample_data_def sample_lessons_def)
  have n: "DAY_NAMES sample_data ! nat 0 =
      [0x41F, 0x43E, 0x43D, 0x435, 0x434, 0x435, 0x43B, 0x44C, 0x43D, 0x438, 0x43A]"
    "DAY_NAMES_SHORT sample_data ! nat 0 = [0x41F, 0x43D]"
    "DAY_NAMES sample_data ! nat 6 =
      [0x412, 0x43E, 0x441, 0x43A, 0x440, 0x435, 0x441, 0x435, 0x43D, 0x44C, 0x435]"
    "DAY_NAMES_SHORT sample_data ! nat 6 = [0x412, 0x441]"
    by (simp_all add: sample_data_def)
  from format_day_schedule_layout [of 1 0 sample_data] l g n
  have a: "format_day_schedule sample_data 1 0 = Inr (formatDay sample_data 1 0) \<and>
   formatDay sample_data 1 0 =
     header_line [0x41F, 0x43E, 0x43D, 0x435, 0x434, 0x435, 0x43B, 0x44C, 0x43D, 0x438, 0x43A]
       [0x41F, 0x43D] 1 @ blank_line @
     block (ascii ''09:00'', [0x410, 0x43B, 0x433, 0x435, 0x431, 0x440, 0x430]) @ blank_line @
     block (ascii ''10:45'', [0x424, 0x438, 0x437, 0x438, 0x43A, 0x430])"
    by simp
  from format_day_schedule_layout [of 2 6 sample_data] l g n
  have b: "format_day_schedule sample_data 2 6 =
     Inr (header_line [0x412, 0x43E, 0x441, 0x43A, 0x440, 0x435, 0x441, 0x435, 0x43D, 0x44C, 0x435]
       [0x412, 0x441] 2 @ blank_line @ no_lessons)"
    by simp
  from a b show ?thesis by simp
qed

lemma contains_mid: "contains (a @ x @ b) x"
  by (simp add: contains_def)

lemma header_parts:
  "header n sh l = [0x1F4C5, 0x20] @ n @ ([0x20, 0x28] @ sh @ [0x29, 0x2C, 0x20] @ l @ 0x20 # nedelya @ [0xA, 0xA])"
  "header n sh l = ([0x1F4C5, 0x20] @ n @ [0x20, 0x28]) @ sh @ ([0x29, 0x2C, 0x20] @ l @ 0x20 # nedelya @ [0xA, 0xA])"
  "header n sh l = ([0x1F4C5, 0x20] @ n @ [0x20, 0x28] @ sh @ [0x29, 0x2C, 0x20]) @ l @ (0x20 # nedelya @ [0xA, 0xA])"
  by (simp_all add: header_def nedelya_def ascii_simps)

lemma contains_header:
  "contains (header n sh l @ body) n" "contains (header n sh l @ body) sh"
  "contains (header n sh l @ body) l"
proof -
  show "contains (header n sh l @ body) n"
    using contains_mid [of "[0x1F4C5, 0x20]" n "([0x20, 0x28] @ sh @ [0x29, 0x2C, 0x20] @ l @ 0x20 # nedelya @ [0xA, 0xA]) @ body"]
    by (simp add: header_parts(1))
  show "contains (header n sh l @ body) sh"
    using contains_mid [of "[0x1F4C5, 0x20] @ n @ [0x20, 0x28]" sh "([0x29, 0x2C, 0x20] @ l @ 0x20 # nedelya @ [0xA, 0xA]) @ body"]
    by (simp add: header_parts(2))
  show "contains (header n sh l @ body) l"
    using contains_mid [of "[0x1F4C5, 0x20] @ n @ [0x20, 0x28] @ sh @ [0x29, 0x2C, 0x20]" l "(0x20 # nedelya @ [0xA, 0xA]) @ body"]
    by (simp add: header_parts(3))
qed

text \<open>
  C2. For week 1 or 2 and a day from 0 to 6 (the two name tables holding the seven
  names), \<open>format_day_schedule\<close> raises nothing and returns a text that contains the
  full day name \<open>DAY_NAMES[day]\<close>, the short code \<open>DAY_NAMES_SHORT[day]\<close> and the week
  label, "I" for week 1 and "II" for week 2; the three stand at the head of the text,
  in this order.
\<close>

theorem format_day_schedule_names:
  assumes "week = 1 \<or> week = 2" "0 \<le> day" "day \<le> 6"
    and "7 \<le> length (DAY_NAMES sd)" "7 \<le> length (DAY_NAMES_SHORT sd)"
  shows "\<exists>out. format_day_schedule sd week day = Inr out \<and>
    contains out (DAY_NAMES sd ! nat day) \<and>
    contains out (DAY_NAMES_SHORT sd ! nat day) \<and>
    contains out (if week = 1 then ascii ''I'' else ascii ''II'') \<and>
    prefix ([0x1F4C5, 0x20] @ DAY_NAMES sd ! nat day @ [0x20, 0x28] @
            DAY_NAMES_SHORT sd ! nat day @ [0x29, 0x2C, 0x20] @
            (if week = 1 then ascii ''I'' else ascii ''II'') @ [0x20]) out"
proof -
  from assms have r: "0 \<le> day" "day < int (length (DAY_NAMES sd))"
    "day < int (length (DAY_NAMES_SHORT sd))" by auto
  define body where "body = (if get_schedule sd week day = [] then no_lessons
           else str_join [0xA, 0xA] (map lesson_line (get_schedule sd week day)))"
  define out where "out = header (DAY_NAMES sd ! nat day) (DAY_NAMES_SHORT sd ! nat day) (week_label week) @ body"
  have f: "format_day_schedule sd week day = Inr out"
    unfolding out_def body_def by (rule format_day_schedule_Inr [OF r])
  have l: "week_label week = (if week = 1 then ascii ''I'' else ascii ''II'')"
    by (simp add: week_label_def)
  have c: "contains out (DAY_NAMES sd ! nat day)" "contains out (DAY_NAMES_SHORT sd ! nat day)"
    "contains out (week_label week)"
    unfolding out_def by (rule contains_header)+
  have p: "prefix ([0x1F4C5, 0x20] @ DAY_NAMES sd ! nat day @ [0x20, 0x28] @
            DAY_NAMES_SHORT sd ! nat day @ [0x29, 0x2C, 0x20] @ week_label week @ [0x20]) out"
    unfolding out_def prefix_def by (simp add: header_def ascii_simps)
  from f c p show ?thesis unfolding l by blast
qed


text \<open>The theorem on the sample schedule, at the Sunday of week 2.\<close>

theorem format_day_schedule_names_witness:
  "\<exists>out. format_day_schedule sample_data 2 6 = Inr out \<and>
     contains out [0x412, 0x43E, 0x441, 0x43A, 0x440, 0x435, 0x441, 0x435, 0x43D, 0x44C, 0x435] \<and>
     contains out [0x412, 0x441] \<and> contains out (ascii ''II'')"
proof -
  have l: "7 \<le> length (DAY_NAMES sample_data)" "7 \<le> length (DAY_NAMES_SHORT sample_data)"
    by (simp_all add: sample_data_def)
  have n: "DAY_NAMES sample_data ! nat 6 =
      [0x412, 0x43E, 0x441, 0x43A, 0x440, 0x435, 0x441, 0x435, 0x43D, 0x44C, 0x435]"
    "DAY_NAMES_SHORT sample_data ! nat 6 = [0x412, 0x441]"
    by (simp_all add: sample_data_def)
  from format_day_schedule_names [of 2 6 sample_data] l
  show ?thesis unfolding n by auto
qed

section \<open>Sessions, the week buttons and the day of /rasp\<close>

lemma ascii_week_neq [simp]: "ascii ''week'' \<noteq> []"
  by (simp add: ascii_def)

lemma find_handler_callback:
  "find (\<lambda>h. check_update h (CallbackQuery u d)) handlers =
     (if prefix (ascii ''week_'') d then Some (CallbackQueryHandler Week_callback (ascii ''week_''))
      else None)"
  by (simp add: handlers_def)

lemma process_update_callback:
  "process_update rest sd now s (CallbackQuery u d) =
     (if prefix (ascii ''week_'') d
      then Inr (s(user_id u := fst (week_callback d (s (user_id u)))),
                snd (week_callback d (s (user_id u))))
      else Inr (s, []))"
  by (simp add: process_update_def find_handler_callback Let_def split: prod.splits)

lemma prefix_week_1: "prefix (ascii ''week_'') (ascii ''week_1'')"
  and prefix_week_2: "prefix (ascii ''week_'') (ascii ''week_2'')"
  and week_2_neq_1: "ascii ''week_2'' \<noteq> ascii ''week_1''"
  by (simp_all add: ascii_def)

text \<open>
  C3. \<open>get_user_week\<close> returns 1 for a user whose week was never set (the key is
  absent, as in the sessions at start). After the button handler has set week 1
  (data \<open>week_1\<close>) or week 2 (data \<open>week_2\<close>) for a user, \<open>get_user_week\<close> returns
  that week for this user, and the dictionary of every other user is as it was.
\<close>

theorem get_user_week_sessions:
  "(ud (ascii ''week'') = None \<longrightarrow> get_user_week ud = 1) \<and>
   get_user_week (no_sessions uid) = 1 \<and>
   (\<exists>s' acts. process_update rest sd now s (CallbackQuery u (ascii ''week_1'')) = Inr (s', acts) \<and>
      get_user_week (s' (user_id u)) = 1 \<and> (\<forall>v. v \<noteq> user_id u \<longrightarrow> s' v = s v)) \<and>
   (\<exists>s' acts. process_update rest sd now s (CallbackQuery u (ascii ''week_2'')) = Inr (s', acts) \<and>
      get_user_week (s' (user_id u)) = 2 \<and> (\<forall>v. v \<noteq> user_id u \<longrightarrow> s' v = s v))"
proof -
  have a: "ud (ascii ''week'') = None \<longrightarrow> get_user_week ud = 1"
    by (simp add: get_user_week_def DEFAULT_WEEK_def)
  have b: "get_user_week (no_sessions uid) = 1"
    by (simp add: get_user_week_def DEFAULT_WEEK_def no_sessions_def)
  have c: "\<exists>s' acts. process_update rest sd now s (CallbackQuery u (ascii ''week_1'')) = Inr (s', acts) \<and>
      get_user_week (s' (user_id u)) = 1 \<and> (\<forall>v. v \<noteq> user_id u \<longrightarrow> s' v = s v)"
    by (simp add: process_update_callback prefix_week_1 week_callback_def get_user_week_def)
  have d: "\<exists>s' acts. process_update rest sd now s (CallbackQuery u (ascii ''week_2'')) = Inr (s', acts) \<and>
      get_user_week (s' (user_id u)) = 2 \<and> (\<forall>v. v \<noteq> user_id u \<longrightarrow> s' v = s v)"
    by (simp add: process_update_callback prefix_week_2 week_2_neq_1 week_callback_def
        get_user_week_def)
  from a b c d show ?thesis by blast
qed

text \<open>
  C10. A button press whose data starts with \<open>week_\<close> and is not exactly \<open>week_1\<close>
  sets the week of the pressing user to 2 and confirms week II; the data \<open>week_1\<close>
  sets week 1 and confirms week I; so among the data with the prefix only \<open>week_1\<close>
  selects week 1.
\<close>

theorem week_callback_prefix:
  "(prefix (ascii ''week_'') d \<and> d \<noteq> ascii ''week_1'' \<longrightarrow>
      process_update rest sd now s (CallbackQuery u d) =
        Inr (s(user_id u := (s (user_id u))(ascii ''week'' \<mapsto> 2)),
             [Answer, EditMessageText chosen_II Markdown])) \<and>
   process_update rest sd now s (CallbackQuery u (ascii ''week_1'')) =
     Inr (s(user_id u := (s (user_id u))(ascii ''week'' \<mapsto> 1)),
          [Answer, EditMessageText chosen_I Markdown]) \<and>
   (prefix (ascii ''week_'') d \<longrightarrow>
      (\<exists>s' acts. process_update rest sd now s (CallbackQuery u d) = Inr (s', acts) \<and>
         (get_user_week (s' (user_id u)) = 1 \<longleftrightarrow> d = ascii ''week_1'')))"
  by (simp add: process_update_callback prefix_week_1 week_callback_def get_user_week_def)

text \<open>The theorem at the unexpected data \<open>week_x\<close>.\<close>

theorem week_callback_prefix_witness:
  "prefix (ascii ''week_'') (ascii ''week_x'') \<and> ascii ''week_x'' \<noteq> ascii ''week_1'' \<and>
   process_update (\<lambda>x. x) sample_data 1 no_sessions
       (CallbackQuery \<lparr>user_id = 7, first_name = ascii ''Ann''\<rparr> (ascii ''week_x'')) =
     Inr (no_sessions(7 := [ascii ''week'' \<mapsto> 2]), [Answer, EditMessageText chosen_II Markdown])"
proof -
  have p: "prefix (ascii ''week_'') (ascii ''week_x'')" "ascii ''week_x'' \<noteq> ascii ''week_1''"
    by (simp_all add: ascii_def)
  have e: "no_sessions (7::nat) = Map.empty"
    by (simp add: no_sessions_def)
  from week_callback_prefix [of "ascii ''week_x''" "\<lambda>x. x" sample_data 1 no_sessions
      "\<lparr>user_id = 7, first_name = ascii ''Ann''\<rparr>"] p e
  show ?thesis by simp
qed


text \<open>
  The theorem at the start of the bot: user 7 chooses week 2, user 8 stays as before.
\<close>

theorem get_user_week_sessions_witness:
  "get_user_week (no_sessions 7) = 1 \<and>
   (\<exists>s' acts. process_update (\<lambda>x. x) sample_data 1 no_sessions
        (CallbackQuery \<lparr>user_id = 7, first_name = ascii ''Ann''\<rparr> (ascii ''week_2'')) = Inr (s', acts) \<and>
      get_user_week (s' 7) = 2 \<and> s' 8 = no_sessions 8)"
proof -
  from get_user_week_sessions [of "no_sessions 7" 7 "\<lambda>x. x" sample_data 1 no_sessions
      "\<lparr>user_id = 7, first_name = ascii ''Ann''\<rparr>"]
  have a: "get_user_week (no_sessions 7) = 1"
    and "\<exists>s' acts. process_update (\<lambda>x. x) sample_data 1 no_sessions
        (CallbackQuery \<lparr>user_id = 7, first_name = ascii ''Ann''\<rparr> (ascii ''week_2'')) = Inr (s', acts) \<and>
      get_user_week (s' 7) = 2 \<and> (\<forall>v. v \<noteq> 7 \<longrightarrow> s' v = no_sessions v)"
    by simp_all
  then obtain s' acts where b: "process_update (\<lambda>x. x) sample_data 1 no_sessions
        (CallbackQuery \<lparr>user_id = 7, first_name = ascii ''Ann''\<rparr> (ascii ''week_2'')) = Inr (s', acts)"
    "get_user_week (s' 7) = 2" "\<forall>v. v \<noteq> 7 \<longrightarrow> s' v = no_sessions v"
    by blast
  from b(3) have "s' 8 = no_sessions 8" by simp
  with a b show ?thesis by blast
qed

lemma weekday_range: "0 \<le> weekday now" "weekday now < 7"
  by (simp_all add: weekday_def)

lemma short_normal: "t \<in> set short \<Longrightarrow> str_lower rest (str_strip t) = t"
  by (auto simp: short_def str_lower_def str_strip_def isspace_def latin_or_cyrillic_def
      lower_cp_def)

lemma parse_day_arg_token:
  assumes "0 \<le> d" "d < 7"
  shows "parse_day_arg rest (short ! nat d) = Some d"
proof -
  from assms have m: "short ! nat d \<in> set short"
    by (simp add: length_short)
  have "parse_day_arg rest (short ! nat d) = enumerate_find 0 short (short ! nat d)"
    by (simp add: parse_day_arg_def short_normal [OF m])
  also have "\<dots> = Some d"
    using assms enumerate_find_Some [OF distinct_short, of 0 "short ! nat d" d]
    by (simp add: length_short)
  finally show ?thesis .
qed

lemma reply_text_simps:
  "reply_text (Some m) out pm mk = Inr [ReplyText out pm mk]"
  "reply_text None out pm mk = Inl AttributeError"
  by (simp_all add: reply_text_def)

lemma rasp_command_Nil:
  "rasp_command rest sd now msg [] ud =
     (case format_day_schedule sd (get_user_week ud) (weekday now) of
        Inl e \<Rightarrow> Inl e
      | Inr text \<Rightarrow>
          (case reply_text msg text None None of
             Inl e \<Rightarrow> Inl e | Inr acts \<Rightarrow> Inr (ud, acts)))"
  by (simp add: rasp_command_def)

lemma rasp_command_Cons:
  "rasp_command rest sd now msg (a # as) ud =
     (case parse_day_arg rest a of
        None \<Rightarrow>
          (case reply_text msg unknown_day None None of
             Inl e \<Rightarrow> Inl e | Inr acts \<Rightarrow> Inr (ud, acts))
      | Some day \<Rightarrow>
          (case format_day_schedule sd (get_user_week ud) day of
             Inl e \<Rightarrow> Inl e
           | Inr text \<Rightarrow>
               (case reply_text msg text None None of
                  Inl e \<Rightarrow> Inl e | Inr acts \<Rightarrow> Inr (ud, acts))))"
  by (simp add: rasp_command_def)

text \<open>
  C8. For every user data (so for every selected week) and every clock reading,
  \<open>/rasp\<close> without argument gives the same result as \<open>/rasp\<close> with the token of
  \<open>short\<close> for the weekday of the clock reading, whatever the clock shows when the
  token is sent and whether the two messages are new or edited: on a new message both
  are the reply with the formatter's text for the selected week and that weekday.
\<close>

theorem rasp_command_today:
  "rasp_command rest sd now msg [] ud =
     rasp_command rest sd now' msg [short ! nat (weekday now)] ud \<and>
   rasp_command rest sd now (Some Message) [] ud =
     (case format_day_schedule sd (get_user_week ud) (weekday now) of
        Inl e \<Rightarrow> Inl e | Inr text \<Rightarrow> Inr (ud, [ReplyText text None None]))"
  by (simp add: rasp_command_Nil rasp_command_Cons parse_day_arg_token [OF weekday_range]
      reply_text_simps split: sum.splits)

text \<open>
  The theorem on 2024-01-03 (ordinal 738888), a Wednesday, with week 2 selected: no
  argument is the same as the token "sr", here sent two days later.
\<close>

theorem rasp_command_today_witness:
  "weekday 738888 = 2 \<and> short ! nat 2 = [0x441, 0x440] \<and>
   rasp_command (\<lambda>x. x) sample_data 738888 (Some Message) [] [ascii ''week'' \<mapsto> 2] =
   rasp_command (\<lambda>x. x) sample_data 738890 (Some Message) [[0x441, 0x440]]
     [ascii ''week'' \<mapsto> 2]"
proof -
  have w: "weekday 738888 = 2"
    by (simp add: weekday_def)
  have t: "short ! nat 2 = [0x441, 0x440]"
    by (simp add: short_def)
  from rasp_command_today [where rest = "\<lambda>x. x" and sd = sample_data and now = 738888
      and now' = 738890 and msg = "Some Message" and ud = "[ascii ''week'' \<mapsto> 2]"] w t
  show ?thesis by simp
qed

section \<open>The week invariant, start-up and the failure path of /rasp\<close>

lemma rasp_command_keeps_ud:
  "rasp_command rest sd now msg args ud = Inr (ud', acts) \<Longrightarrow> ud' = ud"
  by (cases args) (auto simp: rasp_command_Nil rasp_command_Cons split: sum.splits option.splits)

lemma run_callback_command_keeps_ud:
  assumes "run_callback rest sd now cb upd ud = Inr (ud', acts)"
    and "upd = Command u c args \<or> upd = EditedCommand u c args"
  shows "ud' = ud"
proof (cases cb)
  case Start
  with assms(1) show ?thesis by (auto simp: start_def Let_def split: sum.splits)
next
  case Week_command
  with assms(1) show ?thesis by (auto simp: week_command_def Let_def split: sum.splits)
next
  case Rasp_command
  with assms(1) show ?thesis by (auto dest: rasp_command_keeps_ud)
next
  case Help_command
  with assms(1) show ?thesis by (auto simp: help_command_def split: sum.splits)
next
  case Week_callback
  with assms show ?thesis by auto
qed

lemma process_update_command:
  assumes "process_update rest sd now s upd = Inr (s', acts)"
    and c: "upd = Command u c args \<or> upd = EditedCommand u c args"
  shows "s' = s"
proof (cases "find (\<lambda>h. check_update h upd) handlers")
  case None
  with assms show ?thesis by (simp add: process_update_def)
next
  case (Some h)
  from c have eu: "effective_user upd = u" by auto
  from Some assms(1) obtain ud' where
    r: "run_callback rest sd now (callback_of h) upd (s (user_id u)) = Inr (ud', acts)"
    and s': "s' = s(user_id u := ud')"
    by (auto simp: process_update_def Let_def eu split: sum.splits prod.splits)
  from run_callback_command_keeps_ud [OF r c] s' show ?thesis by simp
qed

lemma step_command: "step rest sd s (now, Command u c args) = s"
proof (cases "process_update rest sd now s (Command u c args)")
  case (Inl e)
  then show ?thesis by (simp add: step_def)
next
  case (Inr r)
  obtain s' acts where r: "r = (s', acts)" by (cases r)
  from Inr have "s' = s" unfolding r by (rule process_update_command) simp
  with Inr r show ?thesis by (simp add: step_def)
qed

lemma step_edited_command: "step rest sd s (now, EditedCommand u c args) = s"
proof (cases "process_update rest sd now s (EditedCommand u c args)")
  case (Inl e)
  then show ?thesis by (simp add: step_def)
next
  case (Inr r)
  obtain s' acts where r: "r = (s', acts)" by (cases r)
  from Inr have "s' = s" unfolding r by (rule process_update_command) simp
  with Inr r show ?thesis by (simp add: step_def)
qed

lemma step_callback:
  "step rest sd s (now, CallbackQuery u d) =
     (if prefix (ascii ''week_'') d
      then s(user_id u := (s (user_id u))(ascii ''week'' \<mapsto> (if d = ascii ''week_1'' then 1 else 2)))
      else s)"
  by (simp add: step_def process_update_callback week_callback_def)

lemma step_cases:
  "step rest sd s ev = s \<or>
   (\<exists>uid w. (w = 1 \<or> w = 2) \<and> step rest sd s ev = s(uid := (s uid)(ascii ''week'' \<mapsto> w)))"
proof (cases ev)
  case (Pair now upd)
  show ?thesis
  proof (cases upd)
    case (Command u c args)
    with Pair show ?thesis by (simp add: step_command)
  next
    case (EditedCommand u c args)
    with Pair show ?thesis by (simp add: step_edited_command)
  next
    case (CallbackQuery u d)
    show ?thesis
    proof (cases "prefix (ascii ''week_'') d")
      case True
      have "step rest sd s ev = s(user_id u := (s (user_id u))(ascii ''week'' \<mapsto> (if d = ascii ''week_1'' then 1 else 2)))"
        using True Pair CallbackQuery by (simp add: step_callback)
      then have "\<exists>uid w. (w = 1 \<or> w = 2) \<and>
          step rest sd s ev = s(uid := (s uid)(ascii ''week'' \<mapsto> w))"
        by (intro exI [of _ "user_id u"] exI [of _ "if d = ascii ''week_1'' then 1 else 2"]) simp
      then show ?thesis ..
    next
      case False
      with Pair CallbackQuery show ?thesis by (simp add: step_callback)
    qed
  qed
qed

lemma step_week_valid:
  assumes "\<forall>uid. week_valid (s uid)"
  shows "week_valid (step rest sd s ev uid)"
proof -
  from step_cases [of rest sd s ev] show ?thesis
  proof
    assume "step rest sd s ev = s"
    with assms show ?thesis by simp
  next
    assume "\<exists>u w. (w = 1 \<or> w = 2) \<and> step rest sd s ev = s(u := (s u)(ascii ''week'' \<mapsto> w))"
    then obtain u w where w: "w = 1 \<or> w = 2"
      and st: "step rest sd s ev = s(u := (s u)(ascii ''week'' \<mapsto> w))" by blast
    from assms have "week_valid (s uid)" by simp
    with w show ?thesis unfolding st by (simp add: week_valid_def)
  qed
qed

lemma step_keeps_set:
  assumes "s uid (ascii ''week'') \<noteq> None"
  shows "step rest sd s ev uid (ascii ''week'') \<noteq> None"
proof -
  from step_cases [of rest sd s ev] show ?thesis
  proof
    assume "step rest sd s ev = s"
    with assms show ?thesis by simp
  next
    assume "\<exists>u w. (w = 1 \<or> w = 2) \<and> step rest sd s ev = s(u := (s u)(ascii ''week'' \<mapsto> w))"
    then obtain u w where st: "step rest sd s ev = s(u := (s u)(ascii ''week'' \<mapsto> w))" by blast
    from assms show ?thesis unfolding st by simp
  qed
qed

lemma run_week_valid:
  "\<forall>uid. week_valid (s uid) \<Longrightarrow> week_valid (run rest sd s evs uid)"
proof (induction evs arbitrary: s)
  case Nil
  then show ?case by (simp add: run_def)
next
  case (Cons ev evs)
  from Cons.prems have "\<forall>uid. week_valid (step rest sd s ev uid)"
    by (simp add: step_week_valid)
  from Cons.IH [OF this] show ?case by (simp add: run_def)
qed

lemma run_keeps_set:
  "s uid (ascii ''week'') \<noteq> None \<Longrightarrow> run rest sd s evs uid (ascii ''week'') \<noteq> None"
proof (induction evs arbitrary: s)
  case Nil
  then show ?case by (simp add: run_def)
next
  case (Cons ev evs)
  from Cons.prems have "step rest sd s ev uid (ascii ''week'') \<noteq> None"
    by (rule step_keeps_set)
  then have "run rest sd (step rest sd s ev) evs uid (ascii ''week'') \<noteq> None"
    by (rule Cons.IH)
  then show ?case by (simp add: run_def)
qed

lemma week_valid_get_user_week: "week_valid ud \<Longrightarrow> get_user_week ud = 1 \<or> get_user_week ud = 2"
  by (auto simp: week_valid_def get_user_week_def DEFAULT_WEEK_def split: option.splits)

text \<open>
  C6. The invariant of the stored week: for every user it is absent or one of 1 and 2.
  Every handled update preserves it, so it holds after every sequence of commands and
  button presses, from the empty sessions as from any sessions where it holds, and
  \<open>get_user_week\<close> is then 1 or 2. A stored week is never removed, by one update or by
  a sequence. No command, new or edited, writes the sessions; a button press leaves
  them or writes 1 or 2 for the pressing user.
\<close>

theorem week_selector_invariant:
  "((\<forall>uid. week_valid (s uid)) \<longrightarrow>
      (\<forall>uid. week_valid (step rest sd s ev uid)) \<and>
      (\<forall>uid. week_valid (run rest sd s evs uid)) \<and>
      (\<forall>uid. get_user_week (run rest sd s evs uid) = 1 \<or>
             get_user_week (run rest sd s evs uid) = 2)) \<and>
   (s uid (ascii ''week'') \<noteq> None \<longrightarrow>
      step rest sd s ev uid (ascii ''week'') \<noteq> None \<and>
      run rest sd s evs uid (ascii ''week'') \<noteq> None) \<and>
   week_valid (run rest sd no_sessions evs uid) \<and>
   step rest sd s (now, Command u c args) = s \<and>
   step rest sd s (now, EditedCommand u c args) = s \<and>
   (step rest sd s (now, CallbackQuery u d) = s \<or>
    step rest sd s (now, CallbackQuery u d) = s(user_id u := (s (user_id u))(ascii ''week'' \<mapsto> 1)) \<or>
    step rest sd s (now, CallbackQuery u d) = s(user_id u := (s (user_id u))(ascii ''week'' \<mapsto> 2)))"
proof -
  have a: "(\<forall>uid. week_valid (s uid)) \<longrightarrow>
      (\<forall>uid. week_valid (step rest sd s ev uid)) \<and>
      (\<forall>uid. week_valid (run rest sd s evs uid)) \<and>
      (\<forall>uid. get_user_week (run rest sd s evs uid) = 1 \<or>
             get_user_week (run rest sd s evs uid) = 2)"
  proof
    assume v: "\<forall>uid. week_valid (s uid)"
    have 1: "\<forall>uid. week_valid (step rest sd s ev uid)"
      using step_week_valid [OF v] by simp
    have 2: "\<forall>uid. week_valid (run rest sd s evs uid)"
      using run_week_valid [OF v] by simp
    have 3: "\<forall>uid. get_user_week (run rest sd s evs uid) = 1 \<or>
             get_user_week (run rest sd s evs uid) = 2"
      using 2 week_valid_get_user_week by simp
    from 1 2 3 show "(\<forall>uid. week_valid (step rest sd s ev uid)) \<and>
      (\<forall>uid. week_valid (run rest sd s evs uid)) \<and>
      (\<forall>uid. get_user_week (run rest sd s evs uid) = 1 \<or>
             get_user_week (run rest sd s evs uid) = 2)"
      by simp
  qed
  have b: "s uid (ascii ''week'') \<noteq> None \<longrightarrow>
      step rest sd s ev uid (ascii ''week'') \<noteq> None \<and>
      run rest sd s evs uid (ascii ''week'') \<noteq> None"
  proof
    assume n: "s uid (ascii ''week'') \<noteq> None"
    from n have 1: "step rest sd s ev uid (ascii ''week'') \<noteq> None"
      by (rule step_keeps_set)
    from n have 2: "run rest sd s evs uid (ascii ''week'') \<noteq> None"
      by (rule run_keeps_set)
    from 1 2 show "step rest sd s ev uid (ascii ''week'') \<noteq> None \<and>
      run rest sd s evs uid (ascii ''week'') \<noteq> None" by simp
  qed
  have "\<forall>uid. week_valid (no_sessions uid)"
    by (simp add: week_valid_def no_sessions_def)
  then have c: "week_valid (run rest sd no_sessions evs uid)"
    by (rule run_week_valid)
  have d: "step rest sd s (now, Command u c args) = s"
    by (rule step_command)
  have d': "step rest sd s (now, EditedCommand u c args) = s"
    by (rule step_edited_command)
  have e: "step rest sd s (now, CallbackQuery u d) = s \<or>
    step rest sd s (now, CallbackQuery u d) = s(user_id u := (s (user_id u))(ascii ''week'' \<mapsto> 1)) \<or>
    step rest sd s (now, CallbackQuery u d) = s(user_id u := (s (user_id u))(ascii ''week'' \<mapsto> 2))"
    by (simp add: step_callback)
  show ?thesis
    apply (rule conjI, rule a)
    apply (rule conjI, rule b)
    apply (rule conjI, rule c)
    apply (rule conjI, rule d)
    apply (rule conjI, rule d')
    apply (rule e)
    done
qed

text \<open>
  The theorem on sessions where user 7 has chosen week 2, over a \<open>/rasp\<close> of user 7
  and a press of "week 1" by user 8.
\<close>

theorem week_selector_invariant_witness:
  "(\<forall>uid. week_valid ((no_sessions(7 := [ascii ''week'' \<mapsto> 2])) uid)) \<and>
   (no_sessions(7 := [ascii ''week'' \<mapsto> 2])) 7 (ascii ''week'') \<noteq> None \<and>
   week_valid (run (\<lambda>x. x) sample_data (no_sessions(7 := [ascii ''week'' \<mapsto> 2]))
     [(738888, Command \<lparr>user_id = 7, first_name = ascii ''Ann''\<rparr> (ascii ''rasp'') []),
      (738889, CallbackQuery \<lparr>user_id = 8, first_name = ascii ''Bob''\<rparr> (ascii ''week_1''))] 7) \<and>
   run (\<lambda>x. x) sample_data (no_sessions(7 := [ascii ''week'' \<mapsto> 2]))
     [(738888, Command \<lparr>user_id = 7, first_name = ascii ''Ann''\<rparr> (ascii ''rasp'') []),
      (738889, CallbackQuery \<lparr>user_id = 8, first_name = ascii ''Bob''\<rparr> (ascii ''week_1''))] 7
     (ascii ''week'') \<noteq> None"
proof -
  let ?s = "no_sessions(7 := [ascii ''week'' \<mapsto> 2])"
  have v: "\<forall>uid. week_valid (?s uid)"
    by (simp add: week_valid_def no_sessions_def)
  have n: "?s 7 (ascii ''week'') \<noteq> None"
    by simp
  from v n week_selector_invariant [where s = "?s" and uid = 7 and rest = "\<lambda>x. x"
      and sd = sample_data and evs = "[(738888, Command \<lparr>user_id = 7, first_name = ascii ''Ann''\<rparr> (ascii ''rasp'') []),
      (738889, CallbackQuery \<lparr>user_id = 8, first_name = ascii ''Bob''\<rparr> (ascii ''week_1''))]"]
  show ?thesis by blast
qed

text \<open>
  C7. If \<open>TELEGRAM_BOT_TOKEN\<close> is absent from the environment or empty, \<open>main\<close>
  prints its two lines of diagnosis and returns: it does not build the application,
  registers no handler and does not enter the event loop; it raises nothing.
\<close>

theorem main_without_token:
  assumes "environ (ascii ''TELEGRAM_BOT_TOKEN'') = None \<or>
           environ (ascii ''TELEGRAM_BOT_TOKEN'') = Some []"
  shows "main environ = [Print token_needed, Print token_howto] \<and>
         RunPolling \<notin> set (main environ) \<and>
         (\<forall>t. Build t \<notin> set (main environ)) \<and>
         (\<forall>h. AddHandler h \<notin> set (main environ))"
proof -
  from assms have "BOT_TOKEN environ = []"
    by (auto simp: BOT_TOKEN_def)
  then have "main environ = [Print token_needed, Print token_howto]"
    by (simp add: main_def)
  then show ?thesis by simp
qed

text \<open>The theorem on the empty environment and on an empty token.\<close>

theorem main_without_token_witness:
  "main Map.empty = [Print token_needed, Print token_howto] \<and>
   RunPolling \<notin> set (main Map.empty) \<and>
   main [ascii ''TELEGRAM_BOT_TOKEN'' \<mapsto> []] = [Print token_needed, Print token_howto]"
proof -
  have a: "main Map.empty = [Print token_needed, Print token_howto] \<and>
      RunPolling \<notin> set (main Map.empty)"
    using main_without_token [of Map.empty] by simp
  have b: "main [ascii ''TELEGRAM_BOT_TOKEN'' \<mapsto> []] = [Print token_needed, Print token_howto]"
    using main_without_token [of "[ascii ''TELEGRAM_BOT_TOKEN'' \<mapsto> []]"] by simp
  from a b show ?thesis by simp
qed

lemma format_day_schedule_head:
  "format_day_schedule sd w d = Inr out \<Longrightarrow> hd out = 0x1F4C5"
  by (auto simp: format_day_schedule_def header_def Let_def split: sum.splits if_splits)

lemma unknown_day_head: "hd unknown_day = 0x41D"
  by (simp add: unknown_day_def)

lemma format_not_unknown_day:
  "\<not> (format_day_schedule sd w d = Inr out \<and> out = unknown_day)"
proof
  assume "format_day_schedule sd w d = Inr out \<and> out = unknown_day"
  then have f: "format_day_schedule sd w d = Inr out" and e: "out = unknown_day" by simp_all
  from format_day_schedule_head [OF f] have "hd unknown_day = 0x1F4C5" unfolding e .
  then show False unfolding unknown_day_head by simp
qed

lemma unknown_day_tokens: "\<forall>t\<in>set short. contains unknown_day t"
  by (simp add: short_def contains_def unknown_day_def ascii_def sublist_code prefix_code)


lemma parse_day_arg_range:
  assumes "parse_day_arg rest a = Some d"
  shows "0 \<le> d \<and> d < 7"
proof -
  from assms have "enumerate_find 0 short (str_lower rest (str_strip a)) = Some d"
    by (simp add: parse_day_arg_def)
  with enumerate_find_Some [OF distinct_short, of 0 "str_lower rest (str_strip a)" d]
  show ?thesis by (simp add: length_short)
qed

lemma rasp_command_format:
  assumes "0 \<le> day" "day < 7" "7 \<le> length (DAY_NAMES sd)" "7 \<le> length (DAY_NAMES_SHORT sd)"
  shows "\<exists>out. format_day_schedule sd w day = Inr out \<and> out \<noteq> unknown_day"
proof -
  from assms have r: "0 \<le> day" "day < int (length (DAY_NAMES sd))"
    "day < int (length (DAY_NAMES_SHORT sd))" by auto
  from format_day_schedule_Inr [OF r] obtain out where o: "format_day_schedule sd w day = Inr out"
    by blast
  with format_not_unknown_day [of sd w day out] have "out \<noteq> unknown_day" by simp
  with o show ?thesis by blast
qed

lemma rasp_command_total:
  assumes "7 \<le> length (DAY_NAMES sd)" "7 \<le> length (DAY_NAMES_SHORT sd)"
  shows "\<exists>out. rasp_command rest sd now (Some Message) args ud =
       Inr (ud, [ReplyText out None None]) \<and>
     (out = unknown_day \<longleftrightarrow> (\<exists>a as. args = a # as \<and> parse_day_arg rest a = None))"
proof (cases args)
  case Nil
  have "\<exists>out. format_day_schedule sd (get_user_week ud) (weekday now) = Inr out \<and>
      out \<noteq> unknown_day"
    by (rule rasp_command_format [OF weekday_range assms])
  then obtain out where "format_day_schedule sd (get_user_week ud) (weekday now) = Inr out"
    "out \<noteq> unknown_day" by blast
  with Nil show ?thesis by (simp add: rasp_command_Nil reply_text_simps)
next
  case (Cons a as)
  show ?thesis
  proof (cases "parse_day_arg rest a")
    case None
    with Cons show ?thesis by (simp add: rasp_command_Cons reply_text_simps)
  next
    case (Some day)
    from parse_day_arg_range [OF Some] have "0 \<le> day" "day < 7" by simp_all
    then have "\<exists>out. format_day_schedule sd (get_user_week ud) day = Inr out \<and>
        out \<noteq> unknown_day"
      using assms by (rule rasp_command_format)
    then obtain out where "format_day_schedule sd (get_user_week ud) day = Inr out"
      "out \<noteq> unknown_day" by blast
    with Cons Some show ?thesis by (simp add: rasp_command_Cons reply_text_simps)
  qed
qed

lemma rasp_command_no_message:
  "rasp_command rest sd now None args ud \<noteq> Inr r"
  by (cases args)
     (auto simp: rasp_command_Nil rasp_command_Cons reply_text_simps
           split: sum.splits option.splits)

lemma find_handler_rasp:
  "find (\<lambda>h. check_update h (Command u (ascii ''rasp'') args)) handlers =
     Some (CommandHandler (ascii ''rasp'') Rasp_command)"
  "find (\<lambda>h. check_update h (EditedCommand u (ascii ''rasp'') args)) handlers =
     Some (CommandHandler (ascii ''rasp'') Rasp_command)"
  by (simp_all add: handlers_def ascii_def)

text \<open>
  On a new message the handler does what the specification says of an argument that
  does not parse: it raises nothing, replies with the one message \<open>unknown_day\<close>, and
  the sessions are as before. The message names all seven tokens, and it is no schedule
  text: no result of the formatter equals it. With the two name tables holding the
  seven names, the handler raises on no arguments and no user data, it sends one reply,
  and the reply is \<open>unknown_day\<close> exactly when there is a first argument that does not
  parse.
\<close>

lemma rasp_command_unknown_day_new_message:
  assumes "parse_day_arg rest arg0 = None"
  shows "rasp_command rest sd now (Some Message) (arg0 # args) ud =
       Inr (ud, [ReplyText unknown_day None None]) \<and>
     process_update rest sd now s (Command u (ascii ''rasp'') (arg0 # args)) =
       Inr (s, [ReplyText unknown_day None None]) \<and>
     (\<forall>t\<in>set short. contains unknown_day t) \<and>
     (\<forall>w d out. format_day_schedule sd w d = Inr out \<longrightarrow> out \<noteq> unknown_day) \<and>
     (7 \<le> length (DAY_NAMES sd) \<and> 7 \<le> length (DAY_NAMES_SHORT sd) \<longrightarrow>
        (\<forall>args' ud'. \<exists>out.
           rasp_command rest sd now (Some Message) args' ud' =
             Inr (ud', [ReplyText out None None]) \<and>
           (out = unknown_day \<longleftrightarrow> (\<exists>a as. args' = a # as \<and> parse_day_arg rest a = None))))"
proof -
  from assms have a: "rasp_command rest sd now (Some Message) (arg0 # args) ud =
      Inr (ud, [ReplyText unknown_day None None])"
    by (simp add: rasp_command_Cons reply_text_simps)
  have b: "process_update rest sd now s (Command u (ascii ''rasp'') (arg0 # args)) =
       Inr (s, [ReplyText unknown_day None None])"
    using assms
    by (simp add: process_update_def find_handler_rasp rasp_command_Cons reply_text_simps)
  have c: "\<forall>w d out. format_day_schedule sd w d = Inr out \<longrightarrow> out \<noteq> unknown_day"
  proof (intro allI impI)
    fix w d out
    assume "format_day_schedule sd w d = Inr out"
    with format_not_unknown_day [of sd w d out] show "out \<noteq> unknown_day" by simp
  qed
  have d: "7 \<le> length (DAY_NAMES sd) \<and> 7 \<le> length (DAY_NAMES_SHORT sd) \<longrightarrow>
        (\<forall>args' ud'. \<exists>out.
           rasp_command rest sd now (Some Message) args' ud' =
             Inr (ud', [ReplyText out None None]) \<and>
           (out = unknown_day \<longleftrightarrow> (\<exists>a as. args' = a # as \<and> parse_day_arg rest a = None)))"
  proof (intro impI allI)
    fix args' ud'
    assume "7 \<le> length (DAY_NAMES sd) \<and> 7 \<le> length (DAY_NAMES_SHORT sd)"
    then have l: "7 \<le> length (DAY_NAMES sd)" "7 \<le> length (DAY_NAMES_SHORT sd)"
      by simp_all
    show "\<exists>out. rasp_command rest sd now (Some Message) args' ud' =
             Inr (ud', [ReplyText out None None]) \<and>
           (out = unknown_day \<longleftrightarrow> (\<exists>a as. args' = a # as \<and> parse_day_arg rest a = None))"
      by (rule rasp_command_total [OF l])
  qed
  show ?thesis
    apply (rule conjI, rule a)
    apply (rule conjI, rule b)
    apply (rule conjI, rule unknown_day_tokens)
    apply (rule conjI, rule c)
    apply (rule d)
    done
qed

text \<open>
  On an edited message the handler raises whatever the arguments are: it is
  registered for edited messages as for new ones, \<open>update.message\<close> is \<open>None\<close> there,
  and every path of the handler ends in \<open>update.message.reply_text\<close>.
\<close>

lemma process_update_edited_rasp:
  "\<exists>e. process_update rest sd now s (EditedCommand u (ascii ''rasp'') args) = Inl e"
proof (cases "rasp_command rest sd now None args (s (user_id u))")
  case (Inl e)
  then show ?thesis by (simp add: process_update_def find_handler_rasp)
next
  case (Inr r)
  with rasp_command_no_message [of rest sd now args "s (user_id u)" r] show ?thesis by simp
qed

text \<open>
  C4. The claim fails on the code: user 7, with week 2 selected, edits a message into
  \<open>/rasp\<close> "khd". The argument does not parse as a day, and the handler sends no
  usage message: it raises \<open>AttributeError\<close>. The same command as a new message
  gets the usage message, with the sessions unchanged.
\<close>

theorem rasp_command_edited_message:
  "parse_day_arg (\<lambda>x. x) [0x445, 0x434] = None \<and>
   process_update (\<lambda>x. x) sample_data 738888 (no_sessions(7 := [ascii ''week'' \<mapsto> 2]))
       (EditedCommand \<lparr>user_id = 7, first_name = ascii ''Ann''\<rparr> (ascii ''rasp'')
          [[0x445, 0x434]]) =
     Inl AttributeError \<and>
   process_update (\<lambda>x. x) sample_data 738888 (no_sessions(7 := [ascii ''week'' \<mapsto> 2]))
       (Command \<lparr>user_id = 7, first_name = ascii ''Ann''\<rparr> (ascii ''rasp'')
          [[0x445, 0x434]]) =
     Inr (no_sessions(7 := [ascii ''week'' \<mapsto> 2]), [ReplyText unknown_day None None])"
proof -
  have n: "str_lower (\<lambda>x. x) (str_strip [0x445, 0x434]) = [0x445, 0x434]"
    by (simp add: str_lower_def str_strip_def isspace_def latin_or_cyrillic_def lower_cp_def)
  have p: "parse_day_arg (\<lambda>x. x) [0x445, 0x434] = None"
    by (simp add: parse_day_arg_def n enumerate_find_None) (simp add: short_def)
  have e: "process_update (\<lambda>x. x) sample_data 738888 (no_sessions(7 := [ascii ''week'' \<mapsto> 2]))
       (EditedCommand \<lparr>user_id = 7, first_name = ascii ''Ann''\<rparr> (ascii ''rasp'')
          [[0x445, 0x434]]) =
     Inl AttributeError"
    by (simp add: process_update_def find_handler_rasp rasp_command_Cons p reply_text_simps)
  have c: "process_update (\<lambda>x. x) sample_data 738888 (no_sessions(7 := [ascii ''week'' \<mapsto> 2]))
       (Command \<lparr>user_id = 7, first_name = ascii ''Ann''\<rparr> (ascii ''rasp'')
          [[0x445, 0x434]]) =
     Inr (no_sessions(7 := [ascii ''week'' \<mapsto> 2]), [ReplyText unknown_day None None])"
    by (simp add: process_update_def find_handler_rasp rasp_command_Cons p reply_text_simps)
  show ?thesis
    by (rule conjI, rule p, rule conjI, rule e, rule c)
qed

end
